theory Spec2Isabelle
  imports Main "HOL-Library.Word"
begin

section \<open>Python values\<close>

text \<open>
  The service of \<^verbatim>\<open>src/templates/python/app/main.py\<close> stores and returns what
  \<^verbatim>\<open>json.loads\<close> yields: \<^verbatim>\<open>None\<close>, booleans, integers, floats (kept as the 64 bits of
  the double), strings, lists and dictionaries. A dictionary is an association list in
  insertion order; a key is looked up with \<open>map_of\<close>. A Python \<^verbatim>\<open>str\<close> is a \<open>string\<close>
  whose characters stand for the code points below 256.
\<close>

datatype json =
    JNull
  | JBool bool
  | JInt int
  | JFloat "64 word"
  | JStr string
  | JList "json list"
  | JDict "(string \<times> json) list"

text \<open>
  The exception classes that the code can meet; all of them derive from \<^verbatim>\<open>Exception\<close>, and
  \<^verbatim>\<open>json.JSONDecodeError\<close> derives from \<^verbatim>\<open>ValueError\<close>.
\<close>

datatype exn =
    OSError | ValueError | JSONDecodeError | TypeError | KeyError | AttributeError
  | RecursionError

text \<open>What \<^verbatim>\<open>except ValueError\<close> catches.\<close>

definition is_ValueError :: "exn \<Rightarrow> bool" where
  "is_ValueError e = (e = ValueError \<or> e = JSONDecodeError)"

text \<open>What a call yields: the value it returns, or the exception it raises.\<close>

datatype 'a result = Return 'a | Raise exn

subsection \<open>String methods\<close>

definition isspace :: "char \<Rightarrow> bool" where
  "isspace c =
     (let n = (of_char c :: nat)
      in (9 \<le> n \<and> n \<le> 13) \<or> (28 \<le> n \<and> n \<le> 32) \<or> n = 133 \<or> n = 160)"

definition strip :: "string \<Rightarrow> string" where
  "strip s = rev (dropWhile isspace (rev (dropWhile isspace s)))"

definition lower_char :: "char \<Rightarrow> char" where
  "lower_char c =
     (let n = (of_char c :: nat)
      in if (65 \<le> n \<and> n \<le> 90) \<or> (192 \<le> n \<and> n \<le> 222 \<and> n \<noteq> 215)
         then char_of (n + 32) else c)"

definition lower :: "string \<Rightarrow> string" where
  "lower s = map lower_char s"

text \<open>\<^verbatim>\<open>s.replace('Z', '+00:00')\<close>\<close>

definition replace_Z :: "string \<Rightarrow> string" where
  "replace_Z s = concat (map (\<lambda>c. if c = CHR ''Z'' then ''+00:00'' else [c]) s)"

subsection \<open>Reading a text file line by line\<close>

text \<open>
  \<^verbatim>\<open>open(path, "r")\<close> reads with universal newlines: \<^verbatim>\<open>\r\n\<close> and a lone \<^verbatim>\<open>\r\<close> arrive as
  \<^verbatim>\<open>\n\<close>. \<^verbatim>\<open>readlines()\<close> then cuts the text after every \<^verbatim>\<open>\n\<close>, each line keeping its
  terminator; a last line without one is kept as it is.
\<close>

fun universal_newlines :: "string \<Rightarrow> string" where
  "universal_newlines [] = []"
| "universal_newlines (c # cs) =
     (if c = CHR 0x0D then
        (case cs of
           [] \<Rightarrow> [CHR 0x0A]
         | d # ds \<Rightarrow> if d = CHR 0x0A then CHR 0x0A # universal_newlines ds
                     else CHR 0x0A # universal_newlines cs)
      else c # universal_newlines cs)"

fun split_lines :: "string \<Rightarrow> string \<Rightarrow> string list" where
  "split_lines acc [] = (if acc = [] then [] else [acc])"
| "split_lines acc (c # cs) =
     (if c = CHR 0x0A then (acc @ [c]) # split_lines [] cs
      else split_lines (acc @ [c]) cs)"

definition readlines :: "string \<Rightarrow> string list" where
  "readlines content = split_lines [] (universal_newlines content)"

subsection \<open>Lists\<close>

text \<open>
  \<^verbatim>\<open>xs[start:]\<close>: a negative start counts from the end, and a start outside the list is
  clamped to it.
\<close>

definition slice_from :: "'a list \<Rightarrow> int \<Rightarrow> 'a list" where
  "slice_from xs start =
     (let n = int (length xs);
          s = (if start < 0 then max 0 (start + n) else min start n)
      in drop (nat s) xs)"

subsection \<open>Dictionaries and attribute access\<close>

text \<open>
  \<^verbatim>\<open>log.get(key)\<close>: a dictionary answers with the value or \<^verbatim>\<open>None\<close>; no other JSON
  value has a \<^verbatim>\<open>get\<close> attribute.
\<close>

definition py_get :: "json \<Rightarrow> string \<Rightarrow> json option result" where
  "py_get log k = (case log of JDict kvs \<Rightarrow> Return (map_of kvs k) | _ \<Rightarrow> Raise AttributeError)"

text \<open>
  \<^verbatim>\<open>log[key]\<close> with a string key: a dictionary without the key raises \<^verbatim>\<open>KeyError\<close>, and
  every other JSON value raises \<^verbatim>\<open>TypeError\<close>.
\<close>

definition py_getitem :: "json \<Rightarrow> string \<Rightarrow> json result" where
  "py_getitem log k =
     (case log of
        JDict kvs \<Rightarrow> (case map_of kvs k of None \<Rightarrow> Raise KeyError | Some v \<Rightarrow> Return v)
      | _ \<Rightarrow> Raise TypeError)"

section \<open>Dates and times\<close>

text \<open>
  A \<^verbatim>\<open>datetime\<close>: its calendar fields and, when it is aware, its offset from UTC in
  microseconds.
\<close>

record datetime =
  year :: int
  month :: int
  day :: int
  hour :: int
  minute :: int
  second :: int
  microsecond :: int
  utcoffset :: "int option"

definition digit :: "int \<Rightarrow> char" where
  "digit n = char_of (48 + nat (n mod 10))"

definition pad2 :: "int \<Rightarrow> string" where
  "pad2 n = [digit (n div 10), digit n]"

definition pad4 :: "int \<Rightarrow> string" where
  "pad4 n = [digit (n div 1000), digit (n div 100), digit (n div 10), digit n]"

definition pad6 :: "int \<Rightarrow> string" where
  "pad6 n = [digit (n div 100000), digit (n div 10000), digit (n div 1000),
             digit (n div 100), digit (n div 10), digit n]"

text \<open>\<^verbatim>\<open>strftime("%Y-%m-%d")\<close>, for the years 1000 to 9999.\<close>

definition strftime_ymd :: "datetime \<Rightarrow> string" where
  "strftime_ymd t = pad4 (year t) @ ''-'' @ pad2 (month t) @ ''-'' @ pad2 (day t)"

definition format_offset :: "int \<Rightarrow> string" where
  "format_offset off =
     (let a = \<bar>off\<bar>;
          us = a mod 1000000;
          s = a div 1000000
      in (if off < 0 then ''-'' else ''+'') @ pad2 (s div 3600) @ '':'' @ pad2 (s div 60 mod 60)
         @ (if s mod 60 \<noteq> 0 \<or> us \<noteq> 0 then '':'' @ pad2 (s mod 60) else [])
         @ (if us \<noteq> 0 then ''.'' @ pad6 us else []))"

definition isoformat :: "datetime \<Rightarrow> string" where
  "isoformat t =
     strftime_ymd t @ ''T'' @ pad2 (hour t) @ '':'' @ pad2 (minute t) @ '':'' @ pad2 (second t)
     @ (if microsecond t \<noteq> 0 then ''.'' @ pad6 (microsecond t) else [])
     @ (case utcoffset t of None \<Rightarrow> [] | Some off \<Rightarrow> format_offset off)"

text \<open>The proleptic Gregorian ordinal of a date, as \<^verbatim>\<open>datetime.toordinal\<close> counts it.\<close>

definition is_leap :: "int \<Rightarrow> bool" where
  "is_leap y = (y mod 4 = 0 \<and> (y mod 100 \<noteq> 0 \<or> y mod 400 = 0))"

definition days_in_month :: "int \<Rightarrow> int \<Rightarrow> int" where
  "days_in_month y m =
     (if m = 2 then (if is_leap y then 29 else 28)
      else if m = 4 \<or> m = 6 \<or> m = 9 \<or> m = 11 then 30 else 31)"

definition days_before_year :: "int \<Rightarrow> int" where
  "days_before_year y = (y - 1) * 365 + (y - 1) div 4 - (y - 1) div 100 + (y - 1) div 400"

definition days_before_month :: "int \<Rightarrow> int \<Rightarrow> int" where
  "days_before_month y m = sum_list (map (days_in_month y) [1..m - 1])"

definition toordinal :: "datetime \<Rightarrow> int" where
  "toordinal t = days_before_year (year t) + days_before_month (year t) (month t) + day t"

text \<open>The microseconds that the calendar fields of a \<^verbatim>\<open>datetime\<close> count from year 1.\<close>

definition wall_micros :: "datetime \<Rightarrow> int" where
  "wall_micros t =
     (((toordinal t * 24 + hour t) * 60 + minute t) * 60 + second t) * 1000000 + microsecond t"

text \<open>
  \<^verbatim>\<open>a >= b\<close> on two \<^verbatim>\<open>datetime\<close>s: two naive ones compare by their fields, two aware ones
  by the instants they denote, and a naive one with an aware one raises \<^verbatim>\<open>TypeError\<close>.
\<close>

definition datetime_ge :: "datetime \<Rightarrow> datetime \<Rightarrow> bool result" where
  "datetime_ge a b =
     (case (utcoffset a, utcoffset b) of
        (None, None) \<Rightarrow> Return (wall_micros b \<le> wall_micros a)
      | (Some oa, Some ob) \<Rightarrow> Return (wall_micros b - ob \<le> wall_micros a - oa)
      | _ \<Rightarrow> Raise TypeError)"

section \<open>The standard library, as a parameter\<close>

text \<open>
  The functions of the Python standard library that the service calls and that are not
  modelled here: \<^verbatim>\<open>json.loads\<close>, which returns a value or raises (\<^verbatim>\<open>JSONDecodeError\<close> on
  text that is not JSON, but also \<^verbatim>\<open>RecursionError\<close> on text nested too deeply, or a plain
  \<^verbatim>\<open>ValueError\<close> on an integer with too many digits), \<^verbatim>\<open>json.dumps\<close>,
  \<^verbatim>\<open>datetime.fromisoformat\<close> (\<open>None\<close> where it raises \<^verbatim>\<open>ValueError\<close>) and the text
  \<^verbatim>\<open>str(e)\<close> of an exception.
\<close>

record pylib =
  json_loads :: "string \<Rightarrow> json result"
  json_dumps :: "json \<Rightarrow> string"
  fromisoformat :: "string \<Rightarrow> datetime option"
  str_exn :: "exn \<Rightarrow> string"

section \<open>The world outside the process\<close>

text \<open>
  One reading of the clock: what \<^verbatim>\<open>datetime.now()\<close> returns (local time, naive) and the
  UTC time of the same moment.
\<close>

record instant =
  local_time :: datetime
  utc_time :: datetime

text \<open>
  What the operating system does with one \<^verbatim>\<open>open\<close> and the transfer that follows: it
  succeeds, \<^verbatim>\<open>open\<close> fails, or the transfer fails after some characters.
\<close>

datatype io_outcome = IoOk | FailOpen | FailTransfer nat

text \<open>
  The state the service runs in: the successive readings of the clock, the outcomes of
  the successive \<^verbatim>\<open>open\<close> calls, whether the directory \<^verbatim>\<open>.logs\<close> exists, the text files by
  path, what \<^verbatim>\<open>print\<close> wrote, and the records handed to the \<^verbatim>\<open>logging\<close> module.
\<close>

record world =
  clock :: "nat \<Rightarrow> instant"
  io_script :: "nat \<Rightarrow> io_outcome"
  logs_dir_exists :: bool
  files :: "string \<Rightarrow> string option"
  console :: "string list"
  log_stream :: "(string \<times> string) list"

definition now :: "world \<Rightarrow> datetime \<times> world" where
  "now w = (local_time (clock w 0), w\<lparr>clock := \<lambda>n. clock w (Suc n)\<rparr>)"

definition next_io :: "world \<Rightarrow> io_outcome \<times> world" where
  "next_io w = (io_script w 0, w\<lparr>io_script := \<lambda>n. io_script w (Suc n)\<rparr>)"

text \<open>\<^verbatim>\<open>with open(path, "a") as f: f.write(s)\<close>, for a path inside \<^verbatim>\<open>.logs\<close>.\<close>

definition append_text :: "string \<Rightarrow> string \<Rightarrow> world \<Rightarrow> unit result \<times> world" where
  "append_text path s w =
     (let (outcome, w1) = next_io w;
          old = (case files w1 path of None \<Rightarrow> [] | Some c \<Rightarrow> c)
      in if \<not> logs_dir_exists w1 then (Raise OSError, w1)
         else (case outcome of
                 FailOpen \<Rightarrow> (Raise OSError, w1)
               | FailTransfer k \<Rightarrow> (Raise OSError, w1\<lparr>files := (files w1)(path \<mapsto> old @ take k s)\<rparr>)
               | IoOk \<Rightarrow> (Return (), w1\<lparr>files := (files w1)(path \<mapsto> old @ s)\<rparr>)))"

text \<open>\<^verbatim>\<open>with open(path, "r") as f: lines = f.readlines()\<close>\<close>

definition read_lines :: "string \<Rightarrow> world \<Rightarrow> string list result \<times> world" where
  "read_lines path w =
     (let (outcome, w1) = next_io w
      in case files w1 path of
           None \<Rightarrow> (Raise OSError, w1)
         | Some content \<Rightarrow>
             (case outcome of
                IoOk \<Rightarrow> (Return (readlines content), w1)
              | _ \<Rightarrow> (Raise OSError, w1)))"

definition print :: "string \<Rightarrow> world \<Rightarrow> world" where
  "print s w = w\<lparr>console := console w @ [s]\<rparr>"

text \<open>
  \<^verbatim>\<open>logger.info\<close>, \<^verbatim>\<open>logger.error\<close>, \<^verbatim>\<open>logger.warning\<close>: the record goes to the stream of
  the \<^verbatim>\<open>logging\<close> module, which is configured at level \<^verbatim>\<open>INFO\<close>.
\<close>

definition logger_emit :: "string \<Rightarrow> string \<Rightarrow> world \<Rightarrow> world" where
  "logger_emit levelname message w = w\<lparr>log_stream := log_stream w @ [(levelname, message)]\<rparr>"

section \<open>FileLogger\<close>

record FileLogger =
  service_name :: string

text \<open>\<^verbatim>\<open>file_logger = FileLogger()\<close>, with the default service name.\<close>

definition file_logger :: FileLogger where
  "file_logger = \<lparr>service_name = ''python''\<rparr>"

definition logs_path :: "string \<Rightarrow> string" where
  "logs_path today = ''.logs/'' @ today @ ''.log''"

definition get_log_file :: "FileLogger \<Rightarrow> world \<Rightarrow> string \<times> world" where
  "get_log_file self w = (let (t, w1) = now w in (logs_path (strftime_ymd t), w1))"

definition log_entry :: "FileLogger \<Rightarrow> datetime \<Rightarrow> string \<Rightarrow> string \<Rightarrow> (string \<times> json) list option \<Rightarrow> json" where
  "log_entry self t level message data =
     JDict [(''timestamp'', JStr (isoformat t)),
            (''level'', JStr (lower level)),
            (''service'', JStr (service_name self)),
            (''message'', JStr message),
            (''data'', JDict (case data of None \<Rightarrow> [] | Some d \<Rightarrow> d))]"

text \<open>The body of the \<^verbatim>\<open>try\<close> in \<^verbatim>\<open>_write_log\<close>.\<close>

definition write_log_try ::
  "pylib \<Rightarrow> FileLogger \<Rightarrow> string \<Rightarrow> string \<Rightarrow> (string \<times> json) list option \<Rightarrow> world \<Rightarrow> unit result \<times> world" where
  "write_log_try lib self level message data w =
     (let (t, w1) = now w;
          entry = log_entry self t level message data;
          (path, w2) = get_log_file self w1
      in append_text path (json_dumps lib entry @ [CHR 0x0A]) w2)"

definition write_log ::
  "pylib \<Rightarrow> FileLogger \<Rightarrow> string \<Rightarrow> string \<Rightarrow> (string \<times> json) list option \<Rightarrow> world \<Rightarrow> unit result \<times> world" where
  "write_log lib self level message data w =
     (case write_log_try lib self level message data w of
        (Return u, w') \<Rightarrow> (Return (), w')
      | (Raise e, w') \<Rightarrow> (Return (), print (''Failed to write log: '' @ str_exn lib e) w'))"

definition info ::
  "pylib \<Rightarrow> FileLogger \<Rightarrow> string \<Rightarrow> (string \<times> json) list option \<Rightarrow> world \<Rightarrow> unit result \<times> world" where
  "info lib self message data w =
     (case write_log lib self ''info'' message data w of
        (Raise e, w') \<Rightarrow> (Raise e, w')
      | (Return u, w') \<Rightarrow> (Return (), logger_emit ''INFO'' message w'))"

definition error ::
  "pylib \<Rightarrow> FileLogger \<Rightarrow> string \<Rightarrow> (string \<times> json) list option \<Rightarrow> world \<Rightarrow> unit result \<times> world" where
  "error lib self message data w =
     (case write_log lib self ''error'' message data w of
        (Raise e, w') \<Rightarrow> (Raise e, w')
      | (Return u, w') \<Rightarrow> (Return (), logger_emit ''ERROR'' message w'))"

section \<open>The endpoint /logs\<close>

text \<open>
  The loop over the lines: blank lines are skipped, and so are the lines on which
  \<^verbatim>\<open>json.loads\<close> raises \<^verbatim>\<open>json.JSONDecodeError\<close>; any other exception of \<^verbatim>\<open>json.loads\<close>
  ends the loop and goes on to the handler of \<^verbatim>\<open>get_logs\<close>.
\<close>

fun parse_lines :: "pylib \<Rightarrow> string list \<Rightarrow> json list result" where
  "parse_lines lib [] = Return []"
| "parse_lines lib (line # lines) =
     (let line' = strip line
      in if line' = [] then parse_lines lib lines
         else (case json_loads lib line' of
                 Return entry \<Rightarrow>
                   (case parse_lines lib lines of
                      Raise e \<Rightarrow> Raise e
                    | Return rest \<Rightarrow> Return (entry # rest))
               | Raise e \<Rightarrow>
                   if e = JSONDecodeError then parse_lines lib lines else Raise e))"

text \<open>
  \<^verbatim>\<open>[log for log in logs if log.get("level") == lv]\<close>: the comprehension stops at the
  first element that raises.
\<close>

fun level_comprehension :: "string \<Rightarrow> json list \<Rightarrow> json list result" where
  "level_comprehension lv [] = Return []"
| "level_comprehension lv (log # logs) =
     (case py_get log ''level'' of
        Raise e \<Rightarrow> Raise e
      | Return v \<Rightarrow>
          (case level_comprehension lv logs of
             Raise e \<Rightarrow> Raise e
           | Return rest \<Rightarrow> Return (if v = Some (JStr lv) then log # rest else rest)))"

definition level_filter :: "string option \<Rightarrow> json list \<Rightarrow> json list result" where
  "level_filter level logs =
     (case level of
        None \<Rightarrow> Return logs
      | Some l \<Rightarrow> if l = [] then Return logs else level_comprehension (lower l) logs)"

text \<open>
  \<^verbatim>\<open>datetime.fromisoformat(log["timestamp"].replace('Z', '+00:00')) >= since_dt\<close>
\<close>

definition timestamp_ge :: "pylib \<Rightarrow> json \<Rightarrow> datetime \<Rightarrow> bool result" where
  "timestamp_ge lib log since_dt =
     (case py_getitem log ''timestamp'' of
        Raise e \<Rightarrow> Raise e
      | Return v \<Rightarrow>
          (case v of
             JStr s \<Rightarrow>
               (case fromisoformat lib (replace_Z s) of
                  None \<Rightarrow> Raise ValueError
                | Some dt \<Rightarrow> datetime_ge dt since_dt)
           | _ \<Rightarrow> Raise AttributeError))"

fun since_comprehension :: "pylib \<Rightarrow> datetime \<Rightarrow> json list \<Rightarrow> json list result" where
  "since_comprehension lib since_dt [] = Return []"
| "since_comprehension lib since_dt (log # logs) =
     (case timestamp_ge lib log since_dt of
        Raise e \<Rightarrow> Raise e
      | Return keep \<Rightarrow>
          (case since_comprehension lib since_dt logs of
             Raise e \<Rightarrow> Raise e
           | Return rest \<Rightarrow> Return (if keep then log # rest else rest)))"

text \<open>The \<^verbatim>\<open>if since:\<close> block; its \<^verbatim>\<open>except ValueError: pass\<close> leaves \<^verbatim>\<open>logs\<close> as it was.\<close>

definition since_filter :: "pylib \<Rightarrow> string option \<Rightarrow> json list \<Rightarrow> json list result" where
  "since_filter lib since logs =
     (case since of
        None \<Rightarrow> Return logs
      | Some s \<Rightarrow>
          if s = [] then Return logs
          else (case fromisoformat lib (replace_Z s) of
                  None \<Rightarrow> Return logs
                | Some since_dt \<Rightarrow>
                    (case since_comprehension lib since_dt logs of
                       Return kept \<Rightarrow> Return kept
                     | Raise e \<Rightarrow> if is_ValueError e then Return logs else Raise e)))"

text \<open>The two filters one after the other, then \<^verbatim>\<open>logs[-tail:]\<close>.\<close>

definition apply_filters :: "pylib \<Rightarrow> string option \<Rightarrow> string option \<Rightarrow> json list \<Rightarrow> json list result" where
  "apply_filters lib level since logs =
     (case level_filter level logs of
        Raise e \<Rightarrow> Raise e
      | Return logs1 \<Rightarrow> since_filter lib since logs1)"

definition select_logs ::
  "pylib \<Rightarrow> int \<Rightarrow> string option \<Rightarrow> string option \<Rightarrow> string list \<Rightarrow> json list result" where
  "select_logs lib tail level since lines =
     (case parse_lines lib lines of
        Raise e \<Rightarrow> Raise e
      | Return parsed \<Rightarrow>
          (case apply_filters lib level since parsed of
             Raise e \<Rightarrow> Raise e
           | Return logs \<Rightarrow> Return (slice_from logs (- tail))))"

text \<open>The body of the \<^verbatim>\<open>try\<close> in \<^verbatim>\<open>get_logs\<close>.\<close>

definition get_logs_try ::
  "pylib \<Rightarrow> int \<Rightarrow> string option \<Rightarrow> string option \<Rightarrow> world \<Rightarrow> json list result \<times> world" where
  "get_logs_try lib tail level since w =
     (if \<not> logs_dir_exists w then (Return [], w)
      else
        (let (t, w1) = now w;
             log_file = logs_path (strftime_ymd t)
         in if files w1 log_file = None then (Return [], w1)
            else (case read_lines log_file w1 of
                    (Raise e, w2) \<Rightarrow> (Raise e, w2)
                  | (Return lines, w2) \<Rightarrow> (select_logs lib tail level since lines, w2))))"

definition error_body :: json where
  "error_body = JDict [(''error'', JStr ''Failed to fetch logs'')]"

definition get_logs ::
  "pylib \<Rightarrow> int \<Rightarrow> string option \<Rightarrow> string option \<Rightarrow> world \<Rightarrow> json result \<times> world" where
  "get_logs lib tail level since w =
     (case get_logs_try lib tail level since w of
        (Return logs, w') \<Rightarrow> (Return (JList logs), w')
      | (Raise e, w') \<Rightarrow>
          (case error lib file_logger (''Failed to fetch logs: '' @ str_exn lib e) None w' of
             (Raise e', w'') \<Rightarrow> (Raise e', w'')
           | (Return u, w'') \<Rightarrow> (Return error_body, w'')))"

section \<open>The middleware and /health\<close>

record request =
  http_method :: string
  url_path :: string
  query_params :: "(string \<times> string) list"
  client_host :: "string option"

definition request_data :: "request \<Rightarrow> (string \<times> json) list" where
  "request_data req =
     [(''method'', JStr (http_method req)),
      (''path'', JStr (url_path req)),
      (''query_params'', JDict (map (\<lambda>(k, v). (k, JStr v)) (query_params req))),
      (''client_host'', JStr (case client_host req of None \<Rightarrow> ''unknown'' | Some h \<Rightarrow> h))]"

definition log_requests ::
  "pylib \<Rightarrow> request \<Rightarrow> (request \<Rightarrow> world \<Rightarrow> 'r result \<times> world) \<Rightarrow> world \<Rightarrow> 'r result \<times> world" where
  "log_requests lib req call_next w =
     (case info lib file_logger (http_method req @ '' '' @ url_path req) (Some (request_data req)) w of
        (Raise e, w1) \<Rightarrow> (Raise e, w1)
      | (Return u, w1) \<Rightarrow>
          (case call_next req w1 of
             (Raise e, w2) \<Rightarrow> (Raise e, w2)
           | (Return response, w2) \<Rightarrow> (Return response, w2)))"

definition health :: "pylib \<Rightarrow> world \<Rightarrow> json result \<times> world" where
  "health lib w =
     (case info lib file_logger ''Health check requested'' None w of
        (Raise e, w1) \<Rightarrow> (Raise e, w1)
      | (Return u, w1) \<Rightarrow>
          (Return (JDict [(''status'', JStr ''ok''), (''service'', JStr ''python'')]), w1))"


text \<open>A \<^verbatim>\<open>GET /logs\<close> request, as the application serves it.\<close>

definition get_logs_request ::
  "pylib \<Rightarrow> request \<Rightarrow> int \<Rightarrow> string option \<Rightarrow> string option \<Rightarrow> world \<Rightarrow> json result \<times> world" where
  "get_logs_request lib req tail level since w =
     log_requests lib req (\<lambda>r. get_logs lib tail level since) w"

section \<open>Vocabulary of the properties\<close>

text \<open>The date that names the partition of a query or an append made now.\<close>

definition today :: "world \<Rightarrow> string" where
  "today w = strftime_ymd (local_time (clock w 0))"

text \<open>
  The records of today's partition, as the loop of \<^verbatim>\<open>get_logs\<close> parses them, or the
  exception that ends the loop.
\<close>

definition partition_logs :: "pylib \<Rightarrow> world \<Rightarrow> json list result" where
  "partition_logs lib w =
     (case files w (logs_path (today w)) of
        None \<Rightarrow> Return []
      | Some content \<Rightarrow> parse_lines lib (readlines content))"

definition is_dict :: "json \<Rightarrow> bool" where
  "is_dict v = (case v of JDict kvs \<Rightarrow> True | _ \<Rightarrow> False)"

text \<open>Two strings that differ in case only.\<close>

definition matches_case_insensitively :: "string \<Rightarrow> string \<Rightarrow> bool" where
  "matches_case_insensitively a b = (lower a = lower b)"

text \<open>
  A sequence of appends, each given by the level, the message and the data passed to
  \<^verbatim>\<open>_write_log\<close>.
\<close>

fun append_all ::
  "pylib \<Rightarrow> FileLogger \<Rightarrow> (string \<times> string \<times> (string \<times> json) list option) list \<Rightarrow> world \<Rightarrow> world" where
  "append_all lib self [] w = w"
| "append_all lib self ((level, message, data) # rs) w =
     append_all lib self rs (snd (write_log lib self level message data w))"

text \<open>
  The records that such a sequence builds: every append reads the clock twice, first for
  the timestamp and then for the name of the file.
\<close>

fun entries ::
  "FileLogger \<Rightarrow> (nat \<Rightarrow> instant) \<Rightarrow> (string \<times> string \<times> (string \<times> json) list option) list \<Rightarrow> json list" where
  "entries self clk [] = []"
| "entries self clk ((level, message, data) # rs) =
     log_entry self (local_time (clk 0)) level message data # entries self (\<lambda>n. clk (n + 2)) rs"

text \<open>
  What the write and the read path need of the library for one value: \<^verbatim>\<open>json.dumps\<close> gives
  one line with something in it, and \<^verbatim>\<open>json.loads\<close> gives the value back.
\<close>

definition roundtrips :: "pylib \<Rightarrow> json \<Rightarrow> bool" where
  "roundtrips lib v =
     (CHR 0x0A \<notin> set (json_dumps lib v) \<and> CHR 0x0D \<notin> set (json_dumps lib v)
      \<and> strip (json_dumps lib v) \<noteq> []
      \<and> json_loads lib (strip (json_dumps lib v)) = Return v)"

text \<open>
  A world in which the directory exists, every \<^verbatim>\<open>open\<close> succeeds and every reading of the
  clock falls on the day \<open>d\<close>.
\<close>

definition calm :: "world \<Rightarrow> string \<Rightarrow> bool" where
  "calm w d =
     (logs_dir_exists w \<and> (\<forall>n. io_script w n = IoOk)
      \<and> (\<forall>n. strftime_ymd (local_time (clock w n)) = d))"

text \<open>The text of a file, empty when the file is missing.\<close>

definition content_of :: "world \<Rightarrow> string \<Rightarrow> string" where
  "content_of w path = (case files w path of None \<Rightarrow> [] | Some c \<Rightarrow> c)"

section \<open>Sample values\<close>

text \<open>
  The values that the evaluations below run on. The sample library gives what CPython's
  \<^verbatim>\<open>json\<close> and \<^verbatim>\<open>datetime\<close> give at the arguments that occur in them; no theorem about
  an arbitrary library rests on it.
\<close>

definition sample_time :: datetime where
  "sample_time = \<lparr>year = 2024, month = 1, day = 15, hour = 9, minute = 5, second = 7,
                    microsecond = 0, utcoffset = None\<rparr>"

definition early_time :: datetime where
  "early_time = \<lparr>year = 2024, month = 1, day = 15, hour = 8, minute = 0, second = 0,
                   microsecond = 0, utcoffset = None\<rparr>"

definition rec_first :: json where
  "rec_first = JDict [(''timestamp'', JStr ''2024-01-15T09:05:07''), (''level'', JStr ''info''),
                      (''service'', JStr ''python''), (''message'', JStr ''first''),
                      (''data'', JDict [])]"

definition line_first :: string where
  "line_first = ''{\"timestamp\": \"2024-01-15T09:05:07\", \"level\": \"info\", \"service\": \"python\", \"message\": \"first\", \"data\": {}}''"

definition rec_second :: json where
  "rec_second = JDict [(''timestamp'', JStr ''2024-01-15T09:05:07''), (''level'', JStr ''error''),
                       (''service'', JStr ''python''), (''message'', JStr ''second''),
                       (''data'', JDict [(''code'', JInt 7)])]"

definition line_second :: string where
  "line_second = ''{\"timestamp\": \"2024-01-15T09:05:07\", \"level\": \"error\", \"service\": \"python\", \"message\": \"second\", \"data\": {\"code\": 7}}''"

definition rec_early :: json where
  "rec_early = JDict [(''timestamp'', JStr ''2024-01-15T08:00:00''), (''level'', JStr ''info'')]"

definition line_early :: string where
  "line_early = ''{\"timestamp\": \"2024-01-15T08:00:00\", \"level\": \"info\"}''"

definition rec_garbage :: json where
  "rec_garbage = JDict [(''timestamp'', JStr ''garbage''), (''level'', JStr ''info'')]"

definition line_garbage :: string where
  "line_garbage = ''{\"timestamp\": \"garbage\", \"level\": \"info\"}''"

definition rec_no_timestamp :: json where
  "rec_no_timestamp = JDict [(''level'', JStr ''info''), (''message'', JStr ''no timestamp'')]"

definition line_no_timestamp :: string where
  "line_no_timestamp = ''{\"level\": \"info\", \"message\": \"no timestamp\"}''"

definition rec_upper :: json where
  "rec_upper = JDict [(''timestamp'', JStr ''2024-01-15T09:05:07''), (''level'', JStr ''ERROR'')]"

definition sample_request :: request where
  "sample_request = \<lparr>http_method = ''GET'', url_path = ''/health'', query_params = [],
                       client_host = Some ''127.0.0.1''\<rparr>"

definition rec_request :: json where
  "rec_request = JDict [(''timestamp'', JStr ''2024-01-15T09:05:07''), (''level'', JStr ''info''),
                        (''service'', JStr ''python''), (''message'', JStr ''GET /health''),
                        (''data'', JDict [(''method'', JStr ''GET''), (''path'', JStr ''/health''),
                                          (''query_params'', JDict []),
                                          (''client_host'', JStr ''127.0.0.1'')])]"

definition line_request :: string where
  "line_request = ''{\"timestamp\": \"2024-01-15T09:05:07\", \"level\": \"info\", \"service\": \"python\", \"message\": \"GET /health\", \"data\": {\"method\": \"GET\", \"path\": \"/health\", \"query_params\": {}, \"client_host\": \"127.0.0.1\"}}''"

definition rec_health :: json where
  "rec_health = JDict [(''timestamp'', JStr ''2024-01-15T09:05:07''), (''level'', JStr ''info''),
                       (''service'', JStr ''python''), (''message'', JStr ''Health check requested''),
                       (''data'', JDict [])]"

definition line_health :: string where
  "line_health = ''{\"timestamp\": \"2024-01-15T09:05:07\", \"level\": \"info\", \"service\": \"python\", \"message\": \"Health check requested\", \"data\": {}}''"

definition line_malformed :: string where
  "line_malformed = ''this is not json''"

text \<open>A thousand opening brackets: \<^verbatim>\<open>json.loads\<close> raises \<^verbatim>\<open>RecursionError\<close> on this text.\<close>

definition line_deep :: string where
  "line_deep = replicate 1000 (CHR ''['')"

definition sample_table :: "(string \<times> json) list" where
  "sample_table =
     [(line_first, rec_first), (line_second, rec_second), (line_early, rec_early),
      (line_garbage, rec_garbage), (line_no_timestamp, rec_no_timestamp),
      (line_request, rec_request), (line_health, rec_health)]"

definition sample_loads :: "string \<Rightarrow> json result" where
  "sample_loads s =
     (case map_of sample_table s of
        Some v \<Rightarrow> Return v
      | None \<Rightarrow> if s = line_deep then Raise RecursionError else Raise JSONDecodeError)"

definition sample_dumps :: "json \<Rightarrow> string" where
  "sample_dumps v =
     (case map_of (map (\<lambda>(line, r). (r, line)) sample_table) v of
        Some line \<Rightarrow> line
      | None \<Rightarrow> [])"

definition sample_fromisoformat :: "string \<Rightarrow> datetime option" where
  "sample_fromisoformat s =
     (if s = ''2024-01-15T09:05:07'' then Some sample_time
      else if s = ''2024-01-15T08:00:00'' then Some early_time
      else None)"

definition sample_str_exn :: "exn \<Rightarrow> string" where
  "sample_str_exn e =
     (case e of
        KeyError \<Rightarrow> [CHR 0x27] @ ''timestamp'' @ [CHR 0x27]
      | OSError \<Rightarrow> ''[Errno 13] Permission denied''
      | _ \<Rightarrow> [])"

definition sample_lib :: pylib where
  "sample_lib = \<lparr>json_loads = sample_loads, json_dumps = sample_dumps,
                   fromisoformat = sample_fromisoformat, str_exn = sample_str_exn\<rparr>"

definition sample_path :: string where
  "sample_path = ''.logs/2024-01-15.log''"

text \<open>
  A world on 2024-01-15 in which every \<^verbatim>\<open>open\<close> succeeds and today's partition has the given
  content, or is missing.
\<close>

definition sample_world :: "string option \<Rightarrow> world" where
  "sample_world content =
     \<lparr>clock = (\<lambda>n. \<lparr>local_time = sample_time, utc_time = sample_time\<rparr>),
      io_script = (\<lambda>n. IoOk),
      logs_dir_exists = True,
      files = (\<lambda>p. if p = sample_path then content else None),
      console = [],
      log_stream = []\<rparr>"

text \<open>The same moment seen from a process nine hours east of UTC.\<close>

definition tokyo_morning :: instant where
  "tokyo_morning =
     \<lparr>local_time = \<lparr>year = 2024, month = 1, day = 16, hour = 8, minute = 5, second = 7,
                     microsecond = 0, utcoffset = None\<rparr>,
      utc_time = \<lparr>year = 2024, month = 1, day = 15, hour = 23, minute = 5, second = 7,
                   microsecond = 0, utcoffset = None\<rparr>\<rparr>"


text \<open>
  A world in that process: the clock shows \<open>tokyo_morning\<close>, and the file named after the
  UTC date holds one record.
\<close>

definition tokyo_world :: world where
  "tokyo_world = (sample_world (Some (line_first @ [CHR 0x0A])))\<lparr>clock := (\<lambda>n. tokyo_morning)\<rparr>"


section \<open>Properties\<close>

subsection \<open>Text lines\<close>

lemma universal_newlines_append:
  "xs = [] \<or> last xs \<noteq> CHR 0x0D \<Longrightarrow>
   universal_newlines (xs @ ys) = universal_newlines xs @ universal_newlines ys"
proof (induction xs rule: universal_newlines.induct)
  case 1
  then show ?case by simp
next
  case (2 c cs)
  show ?case
  proof (cases cs)
    case Nil
    with 2 show ?thesis by simp
  next
    case (Cons d ds)
    with 2 show ?thesis by (auto split: if_splits)
  qed
qed

lemma universal_newlines_plain:
  "CHR 0x0D \<notin> set xs \<Longrightarrow> universal_newlines xs = xs"
  by (induction xs rule: universal_newlines.induct) auto

lemma universal_newlines_last:
  "xs \<noteq> [] \<Longrightarrow> last xs = CHR 0x0A \<Longrightarrow>
   universal_newlines xs \<noteq> [] \<and> last (universal_newlines xs) = CHR 0x0A"
proof (induction xs rule: universal_newlines.induct)
  case 1
  then show ?case by simp
next
  case (2 c cs)
  show ?case
  proof (cases cs)
    case Nil
    with 2 show ?thesis by simp
  next
    case (Cons d ds)
    with 2 show ?thesis by (cases ds) (auto split: if_splits)
  qed
qed

lemma split_lines_append:
  "xs \<noteq> [] \<Longrightarrow> last xs = CHR 0x0A \<Longrightarrow>
   split_lines acc (xs @ ys) = split_lines acc xs @ split_lines [] ys"
proof (induction xs arbitrary: acc)
  case Nil
  then show ?case by simp
next
  case (Cons c cs)
  then show ?case by (cases cs) (auto split: if_splits)
qed

lemma readlines_append:
  assumes "xs = [] \<or> last xs = CHR 0x0A"
  shows "readlines (xs @ ys) = readlines xs @ readlines ys"
proof (cases "xs = []")
  case True
  then show ?thesis by (simp add: readlines_def)
next
  case False
  with assms have l: "last xs = CHR 0x0A" by simp
  then have "last xs \<noteq> CHR 0x0D" by simp
  then have "universal_newlines (xs @ ys) = universal_newlines xs @ universal_newlines ys"
    by (simp add: universal_newlines_append)
  moreover have "universal_newlines xs \<noteq> [] \<and> last (universal_newlines xs) = CHR 0x0A"
    using False l by (rule universal_newlines_last)
  ultimately show ?thesis
    by (simp add: readlines_def split_lines_append)
qed

lemma split_lines_plain:
  "CHR 0x0A \<notin> set m \<Longrightarrow> split_lines acc (m @ [CHR 0x0A]) = [acc @ m @ [CHR 0x0A]]"
  by (induction m arbitrary: acc) auto

lemma readlines_one_line:
  "CHR 0x0A \<notin> set m \<Longrightarrow> CHR 0x0D \<notin> set m \<Longrightarrow> readlines (m @ [CHR 0x0A]) = [m @ [CHR 0x0A]]"
  using split_lines_plain [of m "[]"]
  by (simp add: readlines_def universal_newlines_plain)

lemma readlines_cons_line:
  assumes "CHR 0x0A \<notin> set m" and "CHR 0x0D \<notin> set m"
  shows "readlines ((m @ [CHR 0x0A]) @ rest) = (m @ [CHR 0x0A]) # readlines rest"
proof -
  have "readlines ((m @ [CHR 0x0A]) @ rest) = readlines (m @ [CHR 0x0A]) @ readlines rest"
    by (rule readlines_append) simp
  also have "readlines (m @ [CHR 0x0A]) = [m @ [CHR 0x0A]]"
    using assms by (rule readlines_one_line)
  finally show ?thesis by simp
qed

lemma readlines_Nil: "readlines [] = []"
  by (simp add: readlines_def)

lemma isspace_newline: "isspace (CHR 0x0A)"
  by (simp add: isspace_def)

lemma strip_newline: "strip (m @ [CHR 0x0A]) = strip m"
proof (cases "\<forall>c\<in>set m. isspace c")
  case True
  from True have x: "dropWhile isspace m = []" by simp
  from True isspace_newline have y: "dropWhile isspace (m @ [CHR 0x0A]) = []" by simp
  show ?thesis unfolding strip_def x y ..
next
  case False
  then have a: "dropWhile isspace (m @ [CHR 0x0A]) = dropWhile isspace m @ [CHR 0x0A]"
    by (metis dropWhile_append1)
  show ?thesis by (simp add: strip_def a isspace_newline)
qed

lemma strip_clean:
  assumes "s \<noteq> []" and "\<not> isspace (hd s)" and "\<not> isspace (last s)"
  shows "strip s = s"
proof -
  from assms(1,2) have a: "dropWhile isspace s = s"
    by (cases s) simp_all
  from assms(1,3) have "dropWhile isspace (rev s) = rev s"
    by (cases "rev s") (simp_all add: last_rev [symmetric] hd_rev)
  with a show ?thesis by (simp add: strip_def)
qed

subsection \<open>The loop over the lines\<close>



lemma parse_lines_keep:
  "strip line \<noteq> [] \<Longrightarrow> json_loads lib (strip line) = Return v \<Longrightarrow>
   parse_lines lib (line # ls) =
     (case parse_lines lib ls of Raise e \<Rightarrow> Raise e | Return rest \<Rightarrow> Return (v # rest))"
  by (simp add: Let_def)


subsection \<open>Filters and slices\<close>

lemma apply_filters_Nil: "apply_filters lib level since [] = Return []"
  by (simp add: apply_filters_def level_filter_def since_filter_def split: option.splits)

lemma apply_filters_none: "apply_filters lib None None logs = Return logs"
  by (simp add: apply_filters_def level_filter_def since_filter_def)

lemma slice_from_Nil: "slice_from [] k = []"
  by (simp add: slice_from_def)

lemma slice_from_tail:
  "0 < N \<Longrightarrow> slice_from xs (- N) = drop (length xs - nat N) xs"
  by (auto simp: slice_from_def Let_def max_def nat_diff_distrib' intro: arg_cong [where f = "\<lambda>k. drop k xs"])

lemma slice_from_all:
  "int (length xs) \<le> N \<Longrightarrow> slice_from xs (- N) = xs"
  by (auto simp: slice_from_def Let_def max_def)

subsection \<open>Calls that cannot raise\<close>

lemma write_log_returns: "fst (write_log lib self level message data w) = Return ()"
  by (simp add: write_log_def split: prod.splits result.splits)


lemma error_returns: "fst (error lib self message data w) = Return ()"
  using write_log_returns [of lib self "''error''" message data w]
  by (auto simp: error_def split: prod.splits result.splits)

subsection \<open>The response of /logs\<close>

lemma get_logs_try_unfold:
  "fst (get_logs_try lib tail level since w) =
     (if \<not> logs_dir_exists w then Return []
      else case files w (logs_path (today w)) of
             None \<Rightarrow> Return []
           | Some content \<Rightarrow>
               if io_script w 0 = IoOk then select_logs lib tail level since (readlines content)
               else Raise OSError)"
  by (auto simp: get_logs_try_def now_def today_def read_lines_def next_io_def Let_def
           split: option.splits io_outcome.splits prod.splits result.splits)

lemma get_logs_response:
  "fst (get_logs lib tail level since w) =
     (case fst (get_logs_try lib tail level since w) of
        Return logs \<Rightarrow> Return (JList logs)
      | Raise e \<Rightarrow> Return error_body)"
proof (cases "get_logs_try lib tail level since w")
  case (Pair r w')
  show ?thesis
  proof (cases r)
    case (Return logs)
    with Pair show ?thesis by (simp add: get_logs_def)
  next
    case (Raise e)
    obtain u w'' where e: "error lib file_logger (''Failed to fetch logs: '' @ str_exn lib e) None w' = (u, w'')"
      by (cases "error lib file_logger (''Failed to fetch logs: '' @ str_exn lib e) None w'")
    with error_returns [of lib file_logger "''Failed to fetch logs: '' @ str_exn lib e" None w']
    have "u = Return ()" by simp
    with Pair Raise e show ?thesis by (simp add: get_logs_def)
  qed
qed

lemma get_logs_fst_unfold:
  "fst (get_logs lib tail level since w) =
     (if \<not> logs_dir_exists w then Return (JList [])
      else case files w (logs_path (today w)) of
             None \<Rightarrow> Return (JList [])
           | Some content \<Rightarrow>
               if io_script w 0 = IoOk
               then (case select_logs lib tail level since (readlines content) of
                       Return logs \<Rightarrow> Return (JList logs)
                     | Raise e \<Rightarrow> Return error_body)
               else Return error_body)"
  by (simp add: get_logs_response get_logs_try_unfold split: option.splits)

lemma get_logs_try_partition:
  assumes "logs_dir_exists w" and "io_script w 0 = IoOk"
  shows "fst (get_logs_try lib tail level since w) =
           (case partition_logs lib w of
              Raise e \<Rightarrow> Raise e
            | Return parsed \<Rightarrow>
                (case apply_filters lib level since parsed of
                   Raise e \<Rightarrow> Raise e
                 | Return logs \<Rightarrow> Return (slice_from logs (- tail))))"
proof (cases "files w (logs_path (today w))")
  case None
  with assms show ?thesis
    by (simp add: get_logs_try_unfold partition_logs_def apply_filters_Nil slice_from_Nil)
next
  case (Some content)
  with assms show ?thesis
    by (simp add: get_logs_try_unfold partition_logs_def select_logs_def)
qed

subsection \<open>Evaluating the samples\<close>

lemma sample_date: "strftime_ymd sample_time = ''2024-01-15''"
  by code_simp

lemma sample_timestamp: "isoformat sample_time = ''2024-01-15T09:05:07''"
  by code_simp

lemma today_sample: "today (sample_world c) = ''2024-01-15''"
  by (simp add: today_def sample_world_def sample_date)

lemma path_sample: "logs_path ''2024-01-15'' = sample_path"
  by (simp add: logs_path_def sample_path_def)

lemma files_sample: "files (sample_world c) (logs_path (today (sample_world c))) = c"
  by (simp add: today_sample path_sample) (simp add: sample_world_def)

lemma dir_sample: "logs_dir_exists (sample_world c)"
  by (simp add: sample_world_def)

lemma io_sample: "io_script (sample_world c) n = IoOk"
  by (simp add: sample_world_def)

lemma sample_lines_plain:
  "CHR 0x0A \<notin> set line_first" "CHR 0x0D \<notin> set line_first"
  "CHR 0x0A \<notin> set line_second" "CHR 0x0D \<notin> set line_second"
  "CHR 0x0A \<notin> set line_early" "CHR 0x0D \<notin> set line_early"
  "CHR 0x0A \<notin> set line_garbage" "CHR 0x0D \<notin> set line_garbage"
  "CHR 0x0A \<notin> set line_no_timestamp" "CHR 0x0D \<notin> set line_no_timestamp"
  "CHR 0x0A \<notin> set line_request" "CHR 0x0D \<notin> set line_request"
  "CHR 0x0A \<notin> set line_health" "CHR 0x0D \<notin> set line_health"
  "CHR 0x0A \<notin> set line_malformed" "CHR 0x0D \<notin> set line_malformed"
  by (simp_all add: line_first_def line_second_def line_early_def line_garbage_def
        line_no_timestamp_def line_request_def line_health_def line_malformed_def)

lemma sample_lines_strip:
  "strip line_first = line_first" "strip line_second = line_second"
  "strip line_early = line_early" "strip line_garbage = line_garbage"
  "strip line_no_timestamp = line_no_timestamp" "strip line_request = line_request"
  "strip line_health = line_health" "strip line_malformed = line_malformed"
  by (rule strip_clean; simp add: isspace_def line_first_def line_second_def line_early_def
        line_garbage_def line_no_timestamp_def line_request_def line_health_def
        line_malformed_def)+

lemma sample_lines_nonempty:
  "line_first \<noteq> []" "line_second \<noteq> []" "line_early \<noteq> []" "line_garbage \<noteq> []"
  "line_no_timestamp \<noteq> []" "line_request \<noteq> []" "line_health \<noteq> []" "line_malformed \<noteq> []"
  by (simp_all add: line_first_def line_second_def line_early_def line_garbage_def
        line_no_timestamp_def line_request_def line_health_def line_malformed_def)

lemma line_deep_Cons: "line_deep = CHR ''['' # replicate 999 (CHR ''['')"
proof -
  have "(1000::nat) = Suc 999" by simp
  then show ?thesis by (simp only: line_deep_def replicate_Suc)
qed



lemma sample_loads_lines:
  "json_loads sample_lib line_first = Return rec_first"
  "json_loads sample_lib line_second = Return rec_second"
  "json_loads sample_lib line_early = Return rec_early"
  "json_loads sample_lib line_garbage = Return rec_garbage"
  "json_loads sample_lib line_no_timestamp = Return rec_no_timestamp"
  "json_loads sample_lib line_request = Return rec_request"
  "json_loads sample_lib line_health = Return rec_health"
  "json_loads sample_lib line_malformed = Raise JSONDecodeError"
  "json_loads sample_lib line_deep = Raise RecursionError"
  by (simp_all add: sample_lib_def sample_loads_def sample_table_def line_first_def
        line_second_def line_early_def line_garbage_def line_no_timestamp_def line_request_def
        line_health_def line_malformed_def line_deep_Cons)

lemma sample_dumps_recs:
  "json_dumps sample_lib rec_first = line_first"
  "json_dumps sample_lib rec_second = line_second"
  "json_dumps sample_lib rec_request = line_request"
  "json_dumps sample_lib rec_health = line_health"
  by (simp_all add: sample_lib_def sample_dumps_def sample_table_def rec_first_def
        rec_second_def rec_early_def rec_garbage_def rec_no_timestamp_def rec_request_def
        rec_health_def)

lemma readlines_line_Cons:
  assumes "CHR 0x0A \<notin> set m" and "CHR 0x0D \<notin> set m"
  shows "readlines (m @ CHR 0x0A # rest) = (m @ [CHR 0x0A]) # readlines rest"
  using readlines_cons_line [OF assms, of rest] by simp

lemma partition_first_second:
  "partition_logs sample_lib (sample_world (Some (line_first @ CHR 0x0A # line_second @ [CHR 0x0A])))
   = Return [rec_first, rec_second]"
  by (simp add: partition_logs_def files_sample readlines_line_Cons readlines_Nil
        sample_lines_plain Let_def strip_newline sample_lines_strip sample_lines_nonempty
        sample_loads_lines)

section \<open>The claims\<close>

subsection \<open>The tail\<close>

text \<open>
  C2. For every positive integer \<open>N\<close>, a query with \<open>tail = N\<close> over a partition that is
  read and parsed returns exactly \<open>min N k\<close> records, where \<open>k\<close> is the number of records left
  by the level and the since filter, and these are the last \<open>min N k\<close> of them in file order.
\<close>

theorem tail_returns_last:
  assumes "0 < N"
    and "logs_dir_exists w"
    and "io_script w 0 = IoOk"
    and "partition_logs lib w = Return parsed"
    and "apply_filters lib level since parsed = Return kept"
  shows "fst (get_logs lib N level since w) = Return (JList (drop (length kept - nat N) kept))
         \<and> length (drop (length kept - nat N) kept) = min (nat N) (length kept)"
proof -
  have "fst (get_logs_try lib N level since w) = Return (slice_from kept (- N))"
    using assms(2-5) by (simp add: get_logs_try_partition)
  then have "fst (get_logs lib N level since w) = Return (JList (slice_from kept (- N)))"
    by (simp add: get_logs_response)
  with assms(1) show ?thesis
    by (simp add: slice_from_tail)
qed

theorem tail_returns_last_witness:
  "fst (get_logs sample_lib 1 None None
          (sample_world (Some (line_first @ CHR 0x0A # line_second @ [CHR 0x0A]))))
     = Return (JList [rec_second])
   \<and> length [rec_second] = min (nat 1) (length [rec_first, rec_second])"
proof -
  let ?w = "sample_world (Some (line_first @ CHR 0x0A # line_second @ [CHR 0x0A]))"
  have pos: "(0::int) < 1" by simp
  have kept: "apply_filters sample_lib None None [rec_first, rec_second]
              = Return [rec_first, rec_second]"
    by (rule apply_filters_none)
  show ?thesis
    using tail_returns_last [OF pos dir_sample io_sample partition_first_second kept] by simp
qed

subsection \<open>A since value that does not parse\<close>

lemma get_logs_partition:
  assumes "logs_dir_exists w" and "io_script w 0 = IoOk"
  shows "fst (get_logs lib tail level since w) =
           (case partition_logs lib w of
              Raise e \<Rightarrow> Return error_body
            | Return parsed \<Rightarrow>
                (case apply_filters lib level since parsed of
                   Raise e \<Rightarrow> Return error_body
                 | Return logs \<Rightarrow> Return (JList (slice_from logs (- tail)))))"
  using assms by (simp add: get_logs_response get_logs_try_partition split: result.splits)

lemma lower_samples:
  "lower ''ERROR'' = ''error''" "lower ''Error'' = ''error''" "lower ''INFO'' = ''info''"
  "lower ''error'' = ''error''" "lower ''info'' = ''info''"
  by code_simp+

text \<open>
  C5. A query whose \<open>since\<close> value does not parse returns what the same query without
  \<open>since\<close> returns, and leaves the same state behind; no error is reported.
\<close>

theorem unparseable_since_ignored:
  assumes "fromisoformat lib (replace_Z s) = None"
  shows "get_logs lib tail level (Some s) w = get_logs lib tail level None w"
proof -
  have a: "since_filter lib (Some s) = since_filter lib None"
    using assms by (intro ext) (simp add: since_filter_def)
  have b: "apply_filters lib level (Some s) = apply_filters lib level None"
    unfolding apply_filters_def a ..
  have c: "select_logs lib tail level (Some s) = select_logs lib tail level None"
    unfolding select_logs_def b ..
  have "get_logs_try lib tail level (Some s) w = get_logs_try lib tail level None w"
    unfolding get_logs_try_def c ..
  then show ?thesis
    by (simp add: get_logs_def)
qed

theorem unparseable_since_ignored_witness:
  "fromisoformat sample_lib (replace_Z ''yesterday'') = None
   \<and> get_logs sample_lib 50 None (Some ''yesterday'')
        (sample_world (Some (line_first @ CHR 0x0A # line_second @ [CHR 0x0A])))
     = get_logs sample_lib 50 None None
        (sample_world (Some (line_first @ CHR 0x0A # line_second @ [CHR 0x0A])))
   \<and> fst (get_logs sample_lib 50 None None
        (sample_world (Some (line_first @ CHR 0x0A # line_second @ [CHR 0x0A]))))
     = Return (JList [rec_first, rec_second])"
proof -
  have bad: "fromisoformat sample_lib (replace_Z ''yesterday'') = None"
    by (simp add: sample_lib_def sample_fromisoformat_def replace_Z_def)
  have all: "fst (get_logs sample_lib 50 None None
        (sample_world (Some (line_first @ CHR 0x0A # line_second @ [CHR 0x0A]))))
     = Return (JList [rec_first, rec_second])"
    by (simp add: get_logs_partition dir_sample io_sample partition_first_second
          apply_filters_none slice_from_all)
  show ?thesis
    using unparseable_since_ignored [OF bad] bad all by simp
qed

subsection \<open>The level filter\<close>

lemma level_comprehension_dicts:
  "\<forall>log\<in>set logs. is_dict log \<Longrightarrow>
   level_comprehension lv logs =
     Return (filter (\<lambda>log. py_get log ''level'' = Return (Some (JStr lv))) logs)"
proof (induction logs)
  case Nil
  then show ?case by simp
next
  case (Cons log logs)
  then obtain kvs where "log = JDict kvs"
    by (cases log) (simp_all add: is_dict_def)
  with Cons show ?case by (simp add: py_get_def)
qed

text \<open>
  C3 (as amended). For every query with a non-empty level filter over records that are
  JSON objects, a record is retained if and only if its level field is the string that
  the filter gives in lower case; the stored level is compared as it is. A record written
  by Append has its level stored in lower case, so it is retained if and only if the level
  passed to Append and the filter differ in case only.
\<close>

theorem level_filter_keeps_lowercased_matches:
  assumes "l \<noteq> []" and "\<forall>log\<in>set logs. is_dict log"
  shows "level_filter (Some l) logs =
           Return (filter (\<lambda>log. py_get log ''level'' = Return (Some (JStr (lower l)))) logs)
         \<and> ((py_get (log_entry self t given message data) ''level'' = Return (Some (JStr (lower l))))
              = matches_case_insensitively given l)"
  using assms
  by (simp add: level_filter_def level_comprehension_dicts log_entry_def py_get_def
        matches_case_insensitively_def)

theorem level_filter_keeps_lowercased_matches_witness:
  "level_filter (Some ''ERROR'') [rec_first, rec_second, rec_upper] = Return [rec_second]
   \<and> py_get (log_entry file_logger sample_time ''Error'' ''second'' None) ''level''
       = Return (Some (JStr (lower ''ERROR'')))
   \<and> matches_case_insensitively ''Error'' ''ERROR''"
proof -
  have ne: "''ERROR'' \<noteq> []" by simp
  have dicts: "\<forall>log\<in>set [rec_first, rec_second, rec_upper]. is_dict log"
    by (simp add: is_dict_def rec_first_def rec_second_def rec_upper_def)
  have m: "matches_case_insensitively ''Error'' ''ERROR''"
    by (simp add: matches_case_insensitively_def lower_samples)
  show ?thesis
    using level_filter_keeps_lowercased_matches [OF ne dicts, of file_logger sample_time "''Error''" "''second''" None] m
    by (simp add: lower_samples py_get_def rec_first_def rec_second_def rec_upper_def)
qed

text \<open>
  The claim as it was stated fails: a record whose stored level is \<^verbatim>\<open>ERROR\<close> matches the
  filter \<^verbatim>\<open>ERROR\<close> case-insensitively, and the query drops it.
\<close>

theorem level_filter_stored_uppercase_counterexample:
  "py_get rec_upper ''level'' = Return (Some (JStr ''ERROR''))
   \<and> matches_case_insensitively ''ERROR'' ''ERROR''
   \<and> level_filter (Some ''ERROR'') [rec_upper] = Return []"
  by (simp add: matches_case_insensitively_def level_filter_def lower_samples py_get_def
        rec_upper_def)

subsection \<open>Lines that are not JSON\<close>



lemma get_logs_sample_all:
  "partition_logs sample_lib (sample_world c) = Return logs \<Longrightarrow>
   fst (get_logs sample_lib 50 None None (sample_world c)) = Return (JList (slice_from logs (- 50)))"
  by (simp add: get_logs_partition dir_sample io_sample apply_filters_none)




subsection \<open>Records whose timestamp cannot be read\<close>






lemma partition_no_timestamp:
  "partition_logs sample_lib (sample_world (Some (line_no_timestamp @ [CHR 0x0A])))
   = Return [rec_no_timestamp]"
  using readlines_line_Cons [OF sample_lines_plain(9,10), of "[]"]
  by (simp add: partition_logs_def files_sample readlines_Nil
        Let_def strip_newline sample_lines_strip sample_lines_nonempty sample_loads_lines)

lemma sample_since:
  "fromisoformat sample_lib (replace_Z ''2024-01-15T09:05:07'') = Some sample_time"
  "fromisoformat sample_lib (replace_Z ''2024-01-15T08:00:00'') = Some early_time"
  "fromisoformat sample_lib (replace_Z ''garbage'') = None"
  by (simp_all add: sample_lib_def sample_fromisoformat_def replace_Z_def)


lemma timestamp_samples:
  "py_getitem rec_early ''timestamp'' = Return (JStr ''2024-01-15T08:00:00'')"
  "py_getitem rec_garbage ''timestamp'' = Return (JStr ''garbage'')"
  "py_getitem rec_no_timestamp ''timestamp'' = Raise KeyError"
  by (simp_all add: py_getitem_def rec_early_def rec_garbage_def rec_no_timestamp_def)






text \<open>
  C4. A JSON object without a \<^verbatim>\<open>timestamp\<close> key is schema-tolerantly read, but a query with
  a parseable \<open>since\<close> then fails as a whole: \<^verbatim>\<open>log["timestamp"]\<close> raises \<^verbatim>\<open>KeyError\<close>, which
  the \<^verbatim>\<open>except ValueError\<close> of the since block does not catch, and the response is the
  error body. The level filter reads the same record with \<^verbatim>\<open>log.get\<close> and passes it.
\<close>

theorem missing_timestamp_fails_query:
  "partition_logs sample_lib (sample_world (Some (line_no_timestamp @ [CHR 0x0A])))
     = Return [rec_no_timestamp]
   \<and> is_dict rec_no_timestamp
   \<and> fst (get_logs sample_lib 50 None None
         (sample_world (Some (line_no_timestamp @ [CHR 0x0A]))))
       = Return (JList [rec_no_timestamp])
   \<and> fst (get_logs sample_lib 50 (Some ''INFO'') None
         (sample_world (Some (line_no_timestamp @ [CHR 0x0A]))))
       = Return (JList [rec_no_timestamp])
   \<and> fst (get_logs sample_lib 50 None (Some ''2024-01-15T09:05:07'')
         (sample_world (Some (line_no_timestamp @ [CHR 0x0A]))))
       = Return error_body"
proof -
  let ?w = "sample_world (Some (line_no_timestamp @ [CHR 0x0A]))"
  have d: "is_dict rec_no_timestamp"
    by (simp add: is_dict_def rec_no_timestamp_def)
  have all: "fst (get_logs sample_lib 50 None None ?w) = Return (JList [rec_no_timestamp])"
    using partition_no_timestamp by (simp add: get_logs_sample_all slice_from_all)
  have "apply_filters sample_lib (Some ''INFO'') None [rec_no_timestamp] = Return [rec_no_timestamp]"
    by (simp add: apply_filters_def level_filter_def since_filter_def lower_samples py_get_def
          rec_no_timestamp_def)
  then have lv: "fst (get_logs sample_lib 50 (Some ''INFO'') None ?w) = Return (JList [rec_no_timestamp])"
    by (simp add: get_logs_partition dir_sample io_sample partition_no_timestamp slice_from_all)
  have "timestamp_ge sample_lib rec_no_timestamp sample_time = Raise KeyError"
    by (simp add: timestamp_ge_def timestamp_samples)
  then have "apply_filters sample_lib None (Some ''2024-01-15T09:05:07'') [rec_no_timestamp]
             = Raise KeyError"
    using sample_since(1)
    by (simp add: apply_filters_def level_filter_def since_filter_def is_ValueError_def)
  then have failed: "fst (get_logs sample_lib 50 None (Some ''2024-01-15T09:05:07'') ?w) = Return error_body"
    by (simp add: get_logs_partition dir_sample io_sample partition_no_timestamp)
  show ?thesis
    using partition_no_timestamp d all lv failed by simp
qed

subsection \<open>The effect of one append\<close>

lemma write_log_try_unfold:
  "write_log_try lib self level message data w =
     append_text (logs_path (strftime_ymd (local_time (clock w 1))))
       (json_dumps lib (log_entry self (local_time (clock w 0)) level message data) @ [CHR 0x0A])
       (w\<lparr>clock := \<lambda>n. clock w (n + 2)\<rparr>)"
  by (simp add: write_log_try_def get_log_file_def now_def Let_def)

lemma write_log_ok:
  assumes "logs_dir_exists w" and "io_script w 0 = IoOk"
  shows "snd (write_log lib self level message data w) =
     w\<lparr>clock := \<lambda>n. clock w (n + 2),
       io_script := \<lambda>n. io_script w (Suc n),
       files := (files w)(logs_path (strftime_ymd (local_time (clock w 1))) \<mapsto>
                  (case files w (logs_path (strftime_ymd (local_time (clock w 1)))) of
                     None \<Rightarrow> [] | Some c \<Rightarrow> c)
                  @ json_dumps lib (log_entry self (local_time (clock w 0)) level message data)
                  @ [CHR 0x0A])\<rparr>"
  using assms
  by (simp add: write_log_def write_log_try_unfold append_text_def next_io_def Let_def)


lemma write_log_io:
  "io_script (snd (write_log lib self level message data w)) = (\<lambda>n. io_script w (Suc n))"
  by (auto simp: write_log_def write_log_try_unfold append_text_def next_io_def Let_def print_def
        split: io_outcome.splits)






subsection \<open>Appends in a calm world\<close>

lemma write_log_clock:
  "clock (snd (write_log lib self level message data w)) = (\<lambda>n. clock w (n + 2))"
  by (auto simp: write_log_def write_log_try_unfold append_text_def next_io_def Let_def print_def
        split: io_outcome.splits)

lemma write_log_dir:
  "logs_dir_exists (snd (write_log lib self level message data w)) = logs_dir_exists w"
  by (auto simp: write_log_def write_log_try_unfold append_text_def next_io_def Let_def print_def
        split: io_outcome.splits)

lemma write_log_calm:
  "calm w d \<Longrightarrow> calm (snd (write_log lib self level message data w)) d"
  by (simp add: calm_def write_log_clock write_log_dir write_log_io)

lemma write_log_content:
  assumes "calm w d"
  shows "files (snd (write_log lib self level message data w)) (logs_path d)
         = Some (content_of w (logs_path d)
                 @ json_dumps lib (log_entry self (local_time (clock w 0)) level message data)
                 @ [CHR 0x0A])"
proof -
  from assms have "logs_dir_exists w" and "io_script w 0 = IoOk"
    and "strftime_ymd (local_time (clock w 1)) = d"
    by (simp_all add: calm_def)
  then show ?thesis
    by (simp add: write_log_ok content_of_def)
qed




lemma calm_today: "calm w d \<Longrightarrow> today w = d"
  by (simp add: calm_def today_def)

lemma clock_sample: "local_time (clock (sample_world c) n) = sample_time"
  by (simp add: sample_world_def)

lemma sample_entries:
  "log_entry file_logger sample_time ''info'' (http_method sample_request @ '' '' @ url_path sample_request)
     (Some (request_data sample_request)) = rec_request"
  "log_entry file_logger sample_time ''info'' ''Health check requested'' None = rec_health"
  "log_entry file_logger sample_time ''INFO'' ''first'' None = rec_first"
  "log_entry file_logger sample_time ''error'' ''second'' (Some [(''code'', JInt 7)]) = rec_second"
  by (simp_all add: log_entry_def sample_timestamp lower_samples file_logger_def
        sample_request_def request_data_def rec_request_def rec_health_def rec_first_def
        rec_second_def)

subsection \<open>The request to /health\<close>







subsection \<open>The name of the partition\<close>

lemma write_log_other_files:
  "p \<noteq> logs_path (strftime_ymd (local_time (clock w 1))) \<Longrightarrow>
   files (snd (write_log lib self level message data w)) p = files w p"
  by (auto simp: write_log_def write_log_try_unfold append_text_def next_io_def Let_def print_def
        split: io_outcome.splits)

lemma get_log_file_name:
  "fst (get_log_file self w) = ''.logs/'' @ strftime_ymd (local_time (clock w 0)) @ ''.log''"
  by (simp add: get_log_file_def now_def logs_path_def)

text \<open>
  C9 (as amended). The partition file of an Append is \<^verbatim>\<open>.logs/<date>.log\<close>, where the date is
  the calendar date that the local clock shows when the file name is computed: the append
  changes no other file, and when it succeeds it adds its line to that one. A query
  reads the file of the same name for the local date at the time of the query: its
  response depends on no other file.
\<close>

theorem partition_named_by_local_date:
  assumes "p \<noteq> ''.logs/'' @ strftime_ymd (local_time (clock w 1)) @ ''.log''"
    and "logs_dir_exists w' = logs_dir_exists w"
    and "io_script w' 0 = io_script w 0"
    and "clock w' 0 = clock w 0"
    and "files w' (''.logs/'' @ strftime_ymd (local_time (clock w 0)) @ ''.log'')
         = files w (''.logs/'' @ strftime_ymd (local_time (clock w 0)) @ ''.log'')"
  shows "fst (get_log_file self w) = ''.logs/'' @ strftime_ymd (local_time (clock w 0)) @ ''.log''
         \<and> files (snd (write_log lib self level message data w)) p = files w p
         \<and> (logs_dir_exists w \<and> io_script w 0 = IoOk \<longrightarrow>
              files (snd (write_log lib self level message data w))
                (''.logs/'' @ strftime_ymd (local_time (clock w 1)) @ ''.log'')
              = Some (content_of w (''.logs/'' @ strftime_ymd (local_time (clock w 1)) @ ''.log'')
                      @ json_dumps lib (log_entry self (local_time (clock w 0)) level message data)
                      @ [CHR 0x0A]))
         \<and> fst (get_logs lib tail lv since w') = fst (get_logs lib tail lv since w)"
proof -
  have a: "fst (get_log_file self w) = ''.logs/'' @ strftime_ymd (local_time (clock w 0)) @ ''.log''"
    by (rule get_log_file_name)
  have b: "files (snd (write_log lib self level message data w)) p = files w p"
    using assms(1) by (simp add: write_log_other_files logs_path_def)
  have c: "logs_dir_exists w \<and> io_script w 0 = IoOk \<longrightarrow>
              files (snd (write_log lib self level message data w))
                (''.logs/'' @ strftime_ymd (local_time (clock w 1)) @ ''.log'')
              = Some (content_of w (''.logs/'' @ strftime_ymd (local_time (clock w 1)) @ ''.log'')
                      @ json_dumps lib (log_entry self (local_time (clock w 0)) level message data)
                      @ [CHR 0x0A])"
    by (simp add: write_log_ok content_of_def logs_path_def)
  have t: "today w' = today w"
    using assms(4) by (simp add: today_def)
  have f: "files w' (logs_path (today w')) = files w (logs_path (today w))"
    using assms(5) by (simp only: t) (simp add: logs_path_def today_def)
  have d: "fst (get_logs lib tail lv since w') = fst (get_logs lib tail lv since w)"
    by (simp only: get_logs_fst_unfold f assms(2) assms(3))
  from a b c d show ?thesis by simp
qed


theorem partition_named_by_local_date_witness:
  "fst (get_log_file file_logger (sample_world None)) = ''.logs/2024-01-15.log''
   \<and> files (snd (write_log sample_lib file_logger ''INFO'' ''first'' None (sample_world None)))
         ''.logs/2024-01-14.log'' = None
   \<and> files (snd (write_log sample_lib file_logger ''INFO'' ''first'' None (sample_world None)))
         ''.logs/2024-01-15.log'' = Some (line_first @ [CHR 0x0A])
   \<and> fst (get_logs sample_lib 50 None None
         ((sample_world None)\<lparr>files := (files (sample_world None))
                                  (''.logs/2024-01-14.log'' \<mapsto> line_second @ [CHR 0x0A])\<rparr>))
       = fst (get_logs sample_lib 50 None None (sample_world None))"
proof -
  let ?w = "sample_world None"
  let ?w' = "?w\<lparr>files := (files ?w)(''.logs/2024-01-14.log'' \<mapsto> line_second @ [CHR 0x0A])\<rparr>"
  have name: "''.logs/'' @ strftime_ymd (local_time (clock ?w n)) @ ''.log'' = ''.logs/2024-01-15.log''" for n
    by (simp add: clock_sample sample_date)
  have p: "''.logs/2024-01-14.log'' \<noteq> ''.logs/'' @ strftime_ymd (local_time (clock ?w 1)) @ ''.log''"
    by (simp only: name) simp
  have d: "logs_dir_exists ?w' = logs_dir_exists ?w" by simp
  have i: "io_script ?w' 0 = io_script ?w 0" by simp
  have c: "clock ?w' 0 = clock ?w 0" by simp
  have f: "files ?w' (''.logs/'' @ strftime_ymd (local_time (clock ?w 0)) @ ''.log'')
           = files ?w (''.logs/'' @ strftime_ymd (local_time (clock ?w 0)) @ ''.log'')"
    by (simp only: name) simp
  have old: "files ?w ''.logs/2024-01-14.log'' = None"
    by (simp add: sample_world_def sample_path_def)
  have empty: "content_of ?w ''.logs/2024-01-15.log'' = []"
    by (simp add: content_of_def sample_world_def sample_path_def)
  show ?thesis
    using partition_named_by_local_date
            [OF p d i c f, of file_logger sample_lib "''INFO''" "''first''" None 50 None None]
    by (simp add: old empty dir_sample io_sample clock_sample sample_date sample_entries
          sample_dumps_recs)
qed

text \<open>
  The claim as it was stated fails: at 23:05 UTC on 2024-01-15, in a process nine hours
  east of UTC, the partition is \<^verbatim>\<open>.logs/2024-01-16.log\<close>, named after the local date and
  with a suffix; the query does not see the record in the file of the UTC date.
\<close>

theorem partition_not_named_by_utc_date_counterexample:
  "strftime_ymd (utc_time (clock tokyo_world 0)) = ''2024-01-15''
   \<and> fst (get_log_file file_logger tokyo_world) = ''.logs/2024-01-16.log''
   \<and> files tokyo_world ''.logs/2024-01-15.log'' = Some (line_first @ [CHR 0x0A])
   \<and> fst (get_logs sample_lib 50 None None tokyo_world) = Return (JList [])"
proof -
  have u: "strftime_ymd (utc_time tokyo_morning) = ''2024-01-15''"
    by code_simp
  have l: "strftime_ymd (local_time tokyo_morning) = ''2024-01-16''"
    by code_simp
  have c: "clock tokyo_world n = tokyo_morning" for n
    by (simp add: tokyo_world_def)
  have a: "fst (get_log_file file_logger tokyo_world) = ''.logs/2024-01-16.log''"
    by (simp add: get_log_file_name c l)
  have b: "files tokyo_world ''.logs/2024-01-15.log'' = Some (line_first @ [CHR 0x0A])"
    by (simp add: tokyo_world_def sample_world_def sample_path_def)
  have "files tokyo_world (logs_path (today tokyo_world)) = None"
    by (simp add: today_def c l) (simp add: tokyo_world_def sample_world_def sample_path_def logs_path_def)
  then have d: "fst (get_logs sample_lib 50 None None tokyo_world) = Return (JList [])"
    by (simp add: get_logs_fst_unfold)
  from u a b d show ?thesis by (simp add: c)
qed

subsection \<open>A sequence of appends\<close>

lemma entries_length: "length (entries self clk rs) = length rs"
  by (induction self clk rs rule: entries.induct) simp_all

lemma append_all_calm: "calm w d \<Longrightarrow> calm (append_all lib self rs w) d"
proof (induction rs arbitrary: w)
  case Nil
  then show ?case by simp
next
  case (Cons r rs)
  obtain level message data where r: "r = (level, message, data)"
    by (cases r)
  from Cons.prems have "calm (snd (write_log lib self level message data w)) d"
    by (rule write_log_calm)
  then show ?case
    unfolding r by (simp add: Cons.IH)
qed

lemma write_log_content_of:
  "calm w d \<Longrightarrow>
   content_of (snd (write_log lib self level message data w)) (logs_path d)
   = content_of w (logs_path d)
     @ json_dumps lib (log_entry self (local_time (clock w 0)) level message data) @ [CHR 0x0A]"
  using write_log_content [of w d lib self level message data]
  by (simp add: content_of_def)

lemma append_all_content:
  "calm w d \<Longrightarrow>
   content_of (append_all lib self rs w) (logs_path d)
   = content_of w (logs_path d)
     @ concat (map (\<lambda>e. json_dumps lib e @ [CHR 0x0A]) (entries self (clock w) rs))"
proof (induction rs arbitrary: w)
  case Nil
  then show ?case by simp
next
  case (Cons r rs)
  obtain level message data where r: "r = (level, message, data)"
    by (cases r)
  let ?w1 = "snd (write_log lib self level message data w)"
  from Cons.prems have c1: "calm ?w1 d"
    by (rule write_log_calm)
  have clk: "clock ?w1 = (\<lambda>n. clock w (n + 2))"
    by (rule write_log_clock)
  have "content_of (append_all lib self rs ?w1) (logs_path d)
        = content_of ?w1 (logs_path d)
          @ concat (map (\<lambda>e. json_dumps lib e @ [CHR 0x0A]) (entries self (clock ?w1) rs))"
    using c1 by (rule Cons.IH)
  then show ?case
    unfolding r by (simp add: write_log_content_of [OF Cons.prems] clk)
qed

lemma readlines_concat:
  "\<forall>e\<in>set es. CHR 0x0A \<notin> set (f e) \<and> CHR 0x0D \<notin> set (f e) \<Longrightarrow>
   readlines (concat (map (\<lambda>e. f e @ [CHR 0x0A]) es)) = map (\<lambda>e. f e @ [CHR 0x0A]) es"
proof (induction es)
  case Nil
  then show ?case by (simp add: readlines_Nil)
next
  case (Cons e es)
  then have "readlines ((f e @ [CHR 0x0A]) @ concat (map (\<lambda>e. f e @ [CHR 0x0A]) es))
             = (f e @ [CHR 0x0A]) # readlines (concat (map (\<lambda>e. f e @ [CHR 0x0A]) es))"
    by (intro readlines_cons_line) simp_all
  with Cons show ?case by simp
qed

lemma parse_lines_roundtrip:
  "\<forall>e\<in>set es. roundtrips lib e \<Longrightarrow>
   parse_lines lib (map (\<lambda>e. json_dumps lib e @ [CHR 0x0A]) es) = Return es"
proof (induction es)
  case Nil
  then show ?case by simp
next
  case (Cons e es)
  then have "strip (json_dumps lib e @ [CHR 0x0A]) \<noteq> []"
    and "json_loads lib (strip (json_dumps lib e @ [CHR 0x0A])) = Return e"
    by (simp_all add: roundtrips_def strip_newline)
  then have "parse_lines lib ((json_dumps lib e @ [CHR 0x0A]) # map (\<lambda>e. json_dumps lib e @ [CHR 0x0A]) es)
             = (case parse_lines lib (map (\<lambda>e. json_dumps lib e @ [CHR 0x0A]) es) of
                  Raise x \<Rightarrow> Raise x
                | Return rest \<Rightarrow> Return (e # rest))"
    by (rule parse_lines_keep)
  with Cons show ?case by simp
qed

lemma partition_logs_content:
  "partition_logs lib w = parse_lines lib (readlines (content_of w (logs_path (today w))))"
  by (simp add: partition_logs_def content_of_def readlines_Nil split: option.splits)

text \<open>
  C1. Start on a day whose partition is missing or empty, in a world where the directory
  exists, every \<^verbatim>\<open>open\<close> succeeds and the clock stays on that day. After any sequence of
  appends whose records \<^verbatim>\<open>json.dumps\<close> and \<^verbatim>\<open>json.loads\<close> carry to a line and back, a query
  without level and since and with \<open>tail\<close> at least the number of records returns exactly
  those records, in the order of the appends.
\<close>

theorem appended_records_returned_in_order:
  assumes "logs_dir_exists w"
    and "\<forall>n. io_script w n = IoOk"
    and "\<forall>n. strftime_ymd (local_time (clock w n)) = d"
    and "content_of w (logs_path d) = []"
    and "\<forall>e\<in>set (entries self (clock w) rs). roundtrips lib e"
    and "int (length rs) \<le> tail"
  shows "fst (get_logs lib tail None None (append_all lib self rs w))
         = Return (JList (entries self (clock w) rs))"
proof -
  let ?w' = "append_all lib self rs w"
  let ?es = "entries self (clock w) rs"
  from assms(1-3) have calm: "calm w d"
    by (simp add: calm_def)
  then have calm': "calm ?w' d"
    by (rule append_all_calm)
  then have today: "today ?w' = d"
    by (rule calm_today)
  from calm' have ok: "logs_dir_exists ?w'" "io_script ?w' 0 = IoOk"
    by (simp_all add: calm_def)
  have "content_of ?w' (logs_path d) = concat (map (\<lambda>e. json_dumps lib e @ [CHR 0x0A]) ?es)"
    using append_all_content [OF calm, of lib self rs] assms(4) by simp
  moreover have "readlines (concat (map (\<lambda>e. json_dumps lib e @ [CHR 0x0A]) ?es))
                 = map (\<lambda>e. json_dumps lib e @ [CHR 0x0A]) ?es"
    using assms(5) by (intro readlines_concat) (simp add: roundtrips_def)
  ultimately have "partition_logs lib ?w' = Return ?es"
    using assms(5) by (simp add: partition_logs_content today parse_lines_roundtrip)
  then have "fst (get_logs lib tail None None ?w') = Return (JList (slice_from ?es (- tail)))"
    using ok by (simp add: get_logs_partition apply_filters_none)
  moreover have "slice_from ?es (- tail) = ?es"
    using assms(6) by (intro slice_from_all) (simp add: entries_length)
  ultimately show ?thesis by simp
qed

theorem appended_records_returned_in_order_witness:
  "entries file_logger (clock (sample_world None))
     [(''INFO'', ''first'', None), (''error'', ''second'', Some [(''code'', JInt 7)])]
     = [rec_first, rec_second]
   \<and> fst (get_logs sample_lib 2 None None
         (append_all sample_lib file_logger
            [(''INFO'', ''first'', None), (''error'', ''second'', Some [(''code'', JInt 7)])]
            (sample_world None)))
       = Return (JList [rec_first, rec_second])"
proof -
  let ?w = "sample_world None"
  let ?rs = "[(''INFO'', ''first'', None), (''error'', ''second'', Some [(''code'', JInt 7)])]"
  have es: "entries file_logger (clock ?w) ?rs = [rec_first, rec_second]"
    by (simp add: clock_sample sample_entries)
  have io: "\<forall>n. io_script ?w n = IoOk"
    by (simp add: io_sample)
  have day: "\<forall>n. strftime_ymd (local_time (clock ?w n)) = ''2024-01-15''"
    by (simp add: clock_sample sample_date)
  have empty: "content_of ?w (logs_path ''2024-01-15'') = []"
    by (simp add: content_of_def path_sample) (simp add: sample_world_def)
  have rt: "\<forall>e\<in>set (entries file_logger (clock ?w) ?rs). roundtrips sample_lib e"
    by (simp only: es)
       (simp add: roundtrips_def sample_dumps_recs sample_lines_plain sample_lines_strip
          sample_lines_nonempty sample_loads_lines)
  have n: "int (length ?rs) \<le> 2" by simp
  show ?thesis
    using appended_records_returned_in_order [OF dir_sample io day empty rt n] es
    by simp
qed

end
